theory Spec2Isabelle
  imports Main "HOL-Library.Word" "HOL-Library.Sublist"
begin

section \<open>JavaScript strings and the built-in string operations used by gaode.ts\<close>

text \<open>
  A JavaScript string is a sequence of UTF-16 code units; \<open>length\<close>, \<open>substring\<close>,
  \<open>endsWith\<close>, \<open>startsWith\<close>, \<open>includes\<close>, \<open>split\<close> and \<open>trim\<close> all count and
  compare code units.
\<close>

type_synonym jschar = "16 word"
type_synonym jsstring = "jschar list"

text \<open>The string literals of the source: \<open>"0000"\<close>, \<open>"00"\<close>, the one-glyph string
  U+5E02 (the "city" suffix), \<open>","\<close> and \<open>"\n"\<close>.\<close>

definition s0000 :: jsstring where
  "s0000 = [0x30, 0x30, 0x30, 0x30]"

definition s00 :: jsstring where
  "s00 = [0x30, 0x30]"

definition sShi :: jsstring where
  "sShi = [0x5E02]"

definition comma :: jschar where
  "comma = 0x2C"

definition newline :: jschar where
  "newline = 0x0A"

text \<open>\<open>s.endsWith(t)\<close>: with \<open>start = s.length - t.length\<close>, false when \<open>start < 0\<close>,
  otherwise whether the code units of \<open>s\<close> from \<open>start\<close> on are those of \<open>t\<close>.\<close>

definition endsWith :: "jsstring \<Rightarrow> jsstring \<Rightarrow> bool" where
  "endsWith s t = (length t \<le> length s \<and> drop (length s - length t) s = t)"

text \<open>\<open>s.startsWith(t)\<close>: false when \<open>t\<close> is longer than \<open>s\<close>, otherwise whether the
  first \<open>t.length\<close> code units of \<open>s\<close> are those of \<open>t\<close>.\<close>

definition startsWith :: "jsstring \<Rightarrow> jsstring \<Rightarrow> bool" where
  "startsWith s t = (length t \<le> length s \<and> take (length t) s = t)"

text \<open>\<open>s.includes(t)\<close>: whether \<open>t\<close> occurs in \<open>s\<close> at some position.\<close>

fun includes_str :: "jsstring \<Rightarrow> jsstring \<Rightarrow> bool" where
  "includes_str [] t = (t = [])"
| "includes_str (c # cs) t = (startsWith (c # cs) t \<or> includes_str cs t)"

text \<open>\<open>s.substring(a, b)\<close>: both indices are clamped to the length and swapped when
  \<open>a > b\<close>.\<close>

definition substring :: "jsstring \<Rightarrow> nat \<Rightarrow> nat \<Rightarrow> jsstring" where
  "substring s a b =
     (let a' = min a (length s); b' = min b (length s);
          lo = min a' b'; hi = max a' b'
      in take (hi - lo) (drop lo s))"

text \<open>The code units \<open>trim\<close> strips: ECMAScript WhiteSpace and LineTerminator.\<close>

definition isWhiteSpace :: "jschar \<Rightarrow> bool" where
  "isWhiteSpace c =
     (c \<in> set [0x0009, 0x000A, 0x000B, 0x000C, 0x000D, 0x0020, 0x00A0, 0x1680,
               0x2000, 0x2001, 0x2002, 0x2003, 0x2004, 0x2005, 0x2006, 0x2007,
               0x2008, 0x2009, 0x200A, 0x2028, 0x2029, 0x202F, 0x205F, 0x3000,
               0xFEFF])"

definition trim :: "jsstring \<Rightarrow> jsstring" where
  "trim s = rev (dropWhile isWhiteSpace (rev (dropWhile isWhiteSpace s)))"

text \<open>\<open>s.split(sep)\<close> for a one-unit separator: the fields between the separators,
  always at least one field.\<close>

fun split_str :: "jschar \<Rightarrow> jsstring \<Rightarrow> jsstring list" where
  "split_str sep [] = [[]]"
| "split_str sep (c # cs) =
     (if c = sep then [] # split_str sep cs
      else (case split_str sep cs of
              [] \<Rightarrow> [[c]]
            | f # fs \<Rightarrow> (c # f) # fs))"

section \<open>The data model\<close>

record CityInfo =
  name :: jsstring
  adcode :: jsstring
  citycode :: jsstring

datatype AdminLevel = Province | City | District

text \<open>What a call can throw: \<open>readFileSync\<close> failing, or a method call on
  \<open>undefined\<close>.\<close>

datatype error = ReadError | TypeError

text \<open>The optional argument \<open>city?: string | null\<close> of \<open>listCity\<close>.\<close>

datatype jsarg = Undefined | Null | Str jsstring

section \<open>The hierarchy classifier and resolver\<close>

definition getAdminLevel :: "jsstring \<Rightarrow> AdminLevel" where
  "getAdminLevel code =
     (if endsWith code s0000 then Province
      else if endsWith code s00 then City
      else District)"

definition findProvince :: "jsstring \<Rightarrow> CityInfo list \<Rightarrow> CityInfo option" where
  "findProvince code allCities =
     (let provinceCode = substring code 0 2 @ s0000
      in find (\<lambda>c. adcode c = provinceCode) allCities)"

definition findCity :: "jsstring \<Rightarrow> CityInfo list \<Rightarrow> CityInfo option" where
  "findCity code allCities =
     (let cityCode = substring code 0 4 @ s00
      in find (\<lambda>c. adcode c = cityCode) allCities)"

text \<open>The four municipality codes: 110000, 120000, 310000, 500000.\<close>

definition municipalities :: "jsstring list" where
  "municipalities =
     [[0x31, 0x31, 0x30, 0x30, 0x30, 0x30],
      [0x31, 0x32, 0x30, 0x30, 0x30, 0x30],
      [0x33, 0x31, 0x30, 0x30, 0x30, 0x30],
      [0x35, 0x30, 0x30, 0x30, 0x30, 0x30]]"

definition isMunicipality :: "CityInfo \<Rightarrow> bool" where
  "isMunicipality cityInfo = (adcode cityInfo \<in> set municipalities)"

definition isCountyLevelCity :: "CityInfo \<Rightarrow> bool" where
  "isCountyLevelCity cityInfo =
     (let level = getAdminLevel (adcode cityInfo)
      in level = District \<and> endsWith (name cityInfo) sShi)"

definition findDistrictsInProvince :: "jsstring \<Rightarrow> CityInfo list \<Rightarrow> CityInfo list" where
  "findDistrictsInProvince provinceCode allCities =
     filter (\<lambda>c. let level = getAdminLevel (adcode c)
                 in level = District \<and> startsWith (adcode c) provinceCode) allCities"

definition findDistrictsInCity :: "jsstring \<Rightarrow> CityInfo list \<Rightarrow> CityInfo list" where
  "findDistrictsInCity cityCode allCities =
     filter (\<lambda>c. let level = getAdminLevel (adcode c)
                 in level = District \<and> startsWith (adcode c) cityCode) allCities"

section \<open>The name composer\<close>

definition buildFullName :: "CityInfo \<Rightarrow> CityInfo list \<Rightarrow> jsstring" where
  "buildFullName cityInfo allCities =
     (let level = getAdminLevel (adcode cityInfo) in
      if level = Province then name cityInfo
      else
        let province = findProvince (adcode cityInfo) allCities in
        if level = City then
          (case province of
             Some p \<Rightarrow> if \<not> isMunicipality p then name p @ name cityInfo
                       else name cityInfo
           | None \<Rightarrow> name cityInfo)
        else if isCountyLevelCity cityInfo then
          (case province of
             Some p \<Rightarrow> name p @ name cityInfo
           | None \<Rightarrow> name cityInfo)
        else
          let city = findCity (adcode cityInfo) allCities in
          (case province of
             Some p \<Rightarrow>
               if isMunicipality p then name p @ name cityInfo
               else (case city of
                       Some c \<Rightarrow> name p @ name c @ name cityInfo
                     | None \<Rightarrow> name p @ name cityInfo)
           | None \<Rightarrow> name cityInfo))"

section \<open>The table loader\<close>

text \<open>One data line: the destructuring \<open>[name, adcode, citycode] = line.split(",")\<close>
  leaves a missing field \<open>undefined\<close>, and calling \<open>trim\<close> on it throws a TypeError;
  fields beyond the third are ignored.\<close>

definition parseLine :: "jsstring \<Rightarrow> error + CityInfo" where
  "parseLine line =
     (case split_str comma line of
        n # a # c # rest \<Rightarrow> Inr \<lparr>name = trim n, adcode = trim a, citycode = trim c\<rparr>
      | _ \<Rightarrow> Inl TypeError)"

text \<open>\<open>Array.prototype.map\<close> with a callback that may throw: the first throw ends it.\<close>

fun mapE :: "('a \<Rightarrow> error + 'b) \<Rightarrow> 'a list \<Rightarrow> error + 'b list" where
  "mapE f [] = Inr []"
| "mapE f (x # xs) =
     (case f x of
        Inl e \<Rightarrow> Inl e
      | Inr y \<Rightarrow> (case mapE f xs of Inl e \<Rightarrow> Inl e | Inr ys \<Rightarrow> Inr (y # ys)))"

text \<open>The argument is what \<open>fs.readFileSync(csvPath, "utf-8")\<close> gives: \<open>None\<close> when it
  throws, the file's text otherwise.\<close>

definition loadCityData :: "jsstring option \<Rightarrow> error + CityInfo list" where
  "loadCityData file =
     (case file of
        None \<Rightarrow> Inl ReadError
      | Some content \<Rightarrow>
          (let lines = split_str newline content;
               dataLines = filter (\<lambda>line. trim line \<noteq> []) (drop 1 lines)
           in mapE parseLine dataLines))"

section \<open>The query engine\<close>

definition getCity :: "jsstring option \<Rightarrow> jsstring \<Rightarrow> error + CityInfo option" where
  "getCity file code =
     (case loadCityData file of
        Inl e \<Rightarrow> Inl e
      | Inr allCities \<Rightarrow> Inr (find (\<lambda>c. adcode c = code) allCities))"

text \<open>\<open>city || ""\<close>: \<open>undefined\<close>, \<open>null\<close> and the empty string are falsy.\<close>

definition orEmpty :: "jsarg \<Rightarrow> jsstring" where
  "orEmpty city = (case city of Str s \<Rightarrow> (if s = [] then [] else s) | _ \<Rightarrow> [])"

text \<open>The \<open>for ... of\<close> loop of \<open>listCity\<close> over the remaining matches, with the
  accumulator \<open>expandedMatches\<close>; the \<open>break\<close> returns the accumulator as it is.\<close>

fun expandLoop :: "CityInfo list \<Rightarrow> CityInfo list \<Rightarrow> CityInfo list \<Rightarrow> CityInfo list" where
  "expandLoop allCities [] expandedMatches = expandedMatches"
| "expandLoop allCities (match # rest) expandedMatches =
     (let level = getAdminLevel (adcode match);
          expandedMatches' =
            (if level = Province then
               (let districts = findDistrictsInProvince (substring (adcode match) 0 2) allCities
                in expandedMatches @ districts)
             else if level = City then
               (let districts = findDistrictsInCity (substring (adcode match) 0 4) allCities
                in if length districts > 0 then expandedMatches @ districts
                   else expandedMatches @ [match])
             else expandedMatches @ [match])
      in if length expandedMatches' \<ge> 10 then expandedMatches'
         else expandLoop allCities rest expandedMatches')"

text \<open>The body of \<open>listCity\<close> once the table is loaded.\<close>

definition listCityOn :: "CityInfo list \<Rightarrow> jsarg \<Rightarrow> CityInfo list" where
  "listCityOn allCities city =
     (let matches = filter (\<lambda>c. includes_str (name c) (orEmpty city)) allCities;
          expandedMatches = expandLoop allCities matches [];
          limitedMatches = take 100 expandedMatches
      in map (\<lambda>match. \<lparr>name = buildFullName match allCities,
                        adcode = adcode match,
                        citycode = citycode match\<rparr>) limitedMatches)"

definition listCity :: "jsstring option \<Rightarrow> jsarg \<Rightarrow> error + CityInfo list" where
  "listCity file city =
     (case loadCityData file of
        Inl e \<Rightarrow> Inl e
      | Inr allCities \<Rightarrow> Inr (listCityOn allCities city))"

section \<open>The search rule in the specification's words\<close>

text \<open>What one matching record contributes, by its tier: the district-tier records of
  the table whose codes start with the match's first two code units for a province, those
  whose codes start with its first four code units for a city (the city itself when
  there are none), and the record itself for a district.\<close>

definition expansion :: "CityInfo list \<Rightarrow> CityInfo \<Rightarrow> CityInfo list" where
  "expansion T m =
     (case getAdminLevel (adcode m) of
        Province \<Rightarrow>
          filter (\<lambda>d. getAdminLevel (adcode d) = District \<and>
                       prefix (take 2 (adcode m)) (adcode d)) T
      | City \<Rightarrow>
          (let ds = filter (\<lambda>d. getAdminLevel (adcode d) = District \<and>
                                 prefix (take 4 (adcode m)) (adcode d)) T
           in if ds = [] then [m] else ds)
      | District \<Rightarrow> [m])"

text \<open>A returned entry: the record with its name replaced by the composed full name.\<close>

definition composed :: "CityInfo list \<Rightarrow> CityInfo \<Rightarrow> CityInfo" where
  "composed T m = \<lparr>name = buildFullName m T, adcode = adcode m, citycode = citycode m\<rparr>"

text \<open>The data lines of a file's text: all lines but the first that are not blank.\<close>

definition dataLines :: "jsstring \<Rightarrow> jsstring list" where
  "dataLines content = filter (\<lambda>line. trim line \<noteq> []) (drop 1 (split_str newline content))"

text \<open>The records whose name contains the query text, in table order.\<close>

definition matching :: "CityInfo list \<Rightarrow> jsarg \<Rightarrow> CityInfo list" where
  "matching T q = filter (\<lambda>c. includes_str (name c) (orEmpty q)) T"

section \<open>Sample tables\<close>

text \<open>The specification's Zhejiang example: the province 330000, the city 330100 and
  the district 330106 (names U+6D59 U+6C5F U+7701, U+676D U+5DDE U+5E02 and
  U+897F U+6E56 U+533A).\<close>

definition zhejiang :: CityInfo where
  "zhejiang = \<lparr>name = [0x6D59, 0x6C5F, 0x7701],
               adcode = [0x33, 0x33, 0x30, 0x30, 0x30, 0x30], citycode = []\<rparr>"

definition hangzhou :: CityInfo where
  "hangzhou = \<lparr>name = [0x676D, 0x5DDE, 0x5E02],
               adcode = [0x33, 0x33, 0x30, 0x31, 0x30, 0x30],
               citycode = [0x30, 0x35, 0x37, 0x31]\<rparr>"

definition xihu :: CityInfo where
  "xihu = \<lparr>name = [0x897F, 0x6E56, 0x533A],
           adcode = [0x33, 0x33, 0x30, 0x31, 0x30, 0x36],
           citycode = [0x30, 0x35, 0x37, 0x31]\<rparr>"

text \<open>A county-level city of the same province with its parent city: the city 330700
  (U+91D1 U+534E U+5E02) and the district-tier record 330782 whose name
  U+4E49 U+4E4C U+5E02 ends with the "city" glyph.\<close>

definition jinhua :: CityInfo where
  "jinhua = \<lparr>name = [0x91D1, 0x534E, 0x5E02],
             adcode = [0x33, 0x33, 0x30, 0x37, 0x30, 0x30],
             citycode = [0x30, 0x35, 0x37, 0x39]\<rparr>"

definition yiwu :: CityInfo where
  "yiwu = \<lparr>name = [0x4E49, 0x4E4C, 0x5E02],
           adcode = [0x33, 0x33, 0x30, 0x37, 0x38, 0x32],
           citycode = [0x30, 0x35, 0x37, 0x39]\<rparr>"

definition zhejiangTable :: "CityInfo list" where
  "zhejiangTable = [zhejiang, hangzhou, xihu, jinhua, yiwu]"

text \<open>A municipality with eleven districts: the province-tier record 110000 (name
  U+5317 U+4EAC U+5E02) and the districts 110101 to 110109, 110111 and 110112, each named
  by its last two digits followed by U+533A.\<close>

definition beijing :: CityInfo where
  "beijing = \<lparr>name = [0x5317, 0x4EAC, 0x5E02],
              adcode = [0x31, 0x31, 0x30, 0x30, 0x30, 0x30],
              citycode = [0x30, 0x31, 0x30]\<rparr>"

definition beijingDistrict :: "jschar \<Rightarrow> jschar \<Rightarrow> CityInfo" where
  "beijingDistrict a b = \<lparr>name = [a, b, 0x533A],
                          adcode = [0x31, 0x31, 0x30, 0x31, a, b],
                          citycode = [0x30, 0x31, 0x30]\<rparr>"

definition beijingDistricts :: "CityInfo list" where
  "beijingDistricts =
     [beijingDistrict 0x30 0x31, beijingDistrict 0x30 0x32, beijingDistrict 0x30 0x33,
      beijingDistrict 0x30 0x34, beijingDistrict 0x30 0x35, beijingDistrict 0x30 0x36,
      beijingDistrict 0x30 0x37, beijingDistrict 0x30 0x38, beijingDistrict 0x30 0x39,
      beijingDistrict 0x31 0x31, beijingDistrict 0x31 0x32]"

definition beijingTable :: "CityInfo list" where
  "beijingTable = beijing # beijingDistricts"

text \<open>A table holding a single province-tier record, 100000 (the country row, name
  U+4E2D U+56FD).\<close>

definition countryOnlyTable :: "CityInfo list" where
  "countryOnlyTable =
     [\<lparr>name = [0x4E2D, 0x56FD], adcode = [0x31, 0x30, 0x30, 0x30, 0x30, 0x30],
       citycode = []\<rparr>]"

text \<open>File contents: a header line and the line \<open>A,110000,010\<close>; a header line and the
  two-field line \<open>A,110000\<close>; and a header line, the four-field line \<open>A, x1 ,010,zz\<close>
  with a non-numeric code, a blank line and the line \<open>B,110101,010\<close> ending in a
  carriage return.\<close>

definition goodFile :: jsstring where
  "goodFile = [0x68, 0x0A, 0x41, 0x2C, 0x31, 0x31, 0x30, 0x30, 0x30, 0x30, 0x2C,
               0x30, 0x31, 0x30]"

definition shortRowFile :: jsstring where
  "shortRowFile = [0x68, 0x0A, 0x41, 0x2C, 0x31, 0x31, 0x30, 0x30, 0x30, 0x30]"

definition garbageFile :: jsstring where
  "garbageFile = [0x68, 0x0A,
                  0x41, 0x2C, 0x20, 0x78, 0x31, 0x20, 0x2C, 0x30, 0x31, 0x30, 0x2C, 0x7A, 0x7A, 0x0A,
                  0x20, 0x0A,
                  0x42, 0x2C, 0x31, 0x31, 0x30, 0x31, 0x30, 0x31, 0x2C, 0x30, 0x31, 0x30, 0x0D]"

section \<open>Facts about the string operations\<close>

lemma endsWith_suffix: "endsWith s t = suffix t s"
proof
  assume "endsWith s t"
  then have "s = take (length s - length t) s @ t"
    by (simp add: endsWith_def) (metis append_take_drop_id)
  then show "suffix t s"
    unfolding suffix_def by blast
next
  assume "suffix t s"
  then obtain zs where "s = zs @ t"
    unfolding suffix_def by blast
  then show "endsWith s t"
    by (simp add: endsWith_def)
qed

lemma startsWith_prefix: "startsWith s t = prefix t s"
proof
  assume "startsWith s t"
  then have "s = t @ drop (length t) s"
    by (simp add: startsWith_def) (metis append_take_drop_id)
  then show "prefix t s"
    unfolding prefix_def by blast
next
  assume "prefix t s"
  then obtain zs where "s = t @ zs"
    unfolding prefix_def by blast
  then show "startsWith s t"
    by (simp add: startsWith_def)
qed

lemma substring_from_0: "substring s 0 n = take n s"
  by (simp add: substring_def Let_def min_def)

section \<open>The tier of a code\<close>

lemma suffix_s0000_s00: "suffix s0000 s \<Longrightarrow> suffix s00 s"
proof -
  assume "suffix s0000 s"
  moreover have "suffix s00 s0000"
    by (simp add: s00_def s0000_def suffix_def)
  ultimately show ?thesis
    by (rule suffix_order.trans[rotated])
qed

lemma getAdminLevel_Province: "(getAdminLevel s = Province) = suffix s0000 s"
  by (simp add: getAdminLevel_def endsWith_suffix)

lemma getAdminLevel_City: "(getAdminLevel s = City) = (suffix s00 s \<and> \<not> suffix s0000 s)"
  by (simp add: getAdminLevel_def endsWith_suffix)

lemma getAdminLevel_District: "(getAdminLevel s = District) = (\<not> suffix s00 s)"
  using suffix_s0000_s00 [of s] by (auto simp add: getAdminLevel_def endsWith_suffix)

text \<open>
  Claim C7. For every valid 6-digit code (six code units, each a decimal digit),
  \<open>getAdminLevel\<close> returns province exactly when the code ends in \<open>"0000"\<close>, city
  exactly when it ends in \<open>"00"\<close> but not in \<open>"0000"\<close>, and district otherwise.
\<close>

theorem getAdminLevel_six_digit_codes:
  assumes "length code = 6" and "\<forall>c\<in>set code. 0x30 \<le> c \<and> c \<le> 0x39"
  shows "(getAdminLevel code = Province \<longleftrightarrow> suffix s0000 code) \<and>
         (getAdminLevel code = City \<longleftrightarrow> suffix s00 code \<and> \<not> suffix s0000 code) \<and>
         (getAdminLevel code = District \<longleftrightarrow>
            \<not> suffix s0000 code \<and> \<not> (suffix s00 code \<and> \<not> suffix s0000 code))"
  using getAdminLevel_Province [of code] getAdminLevel_City [of code]
    getAdminLevel_District [of code] suffix_s0000_s00 [of code]
  by blast

theorem getAdminLevel_six_digit_codes_witness:
  "length [0x33, 0x33, 0x30, 0x31, 0x30, 0x30 :: jschar] = 6 \<and>
   list_all (\<lambda>c. 0x30 \<le> c \<and> c \<le> 0x39) [0x33, 0x33, 0x30, 0x31, 0x30, 0x30 :: jschar] \<and>
   suffix s00 [0x33, 0x33, 0x30, 0x31, 0x30, 0x30] \<and>
   \<not> suffix s0000 [0x33, 0x33, 0x30, 0x31, 0x30, 0x30] \<and>
   getAdminLevel [0x33, 0x33, 0x30, 0x31, 0x30, 0x30] = City"
  using getAdminLevel_six_digit_codes [of "[0x33, 0x33, 0x30, 0x31, 0x30, 0x30]"]
  by (simp add: endsWith_suffix [symmetric] endsWith_def s00_def s0000_def)

text \<open>
  Claim C10. \<open>getAdminLevel\<close> is total over all strings: for every string, of any
  length and content, it returns one of province, city and district, and which one is
  decided by the two suffix tests alone; the empty string and every string that does not
  end in \<open>"00"\<close> are district.
\<close>

theorem getAdminLevel_total:
  "getAdminLevel s \<in> {Province, City, District} \<and>
   (getAdminLevel s = Province \<longleftrightarrow> suffix s0000 s) \<and>
   (getAdminLevel s = City \<longleftrightarrow> suffix s00 s \<and> \<not> suffix s0000 s) \<and>
   (getAdminLevel s = District \<longleftrightarrow> \<not> suffix s00 s) \<and>
   getAdminLevel [] = District"
proof -
  have "getAdminLevel s \<in> {Province, City, District}"
    by (cases "getAdminLevel s") simp_all
  moreover have "getAdminLevel [] = District"
    by (simp add: getAdminLevel_def endsWith_def s00_def s0000_def)
  ultimately show ?thesis
    using getAdminLevel_Province [of s] getAdminLevel_City [of s]
      getAdminLevel_District [of s]
    by blast
qed

theorem getAdminLevel_total_witness:
  "getAdminLevel [0x61, 0x30] = District \<and> getAdminLevel [0x78, 0x30, 0x30] = City \<and>
   getAdminLevel [0x30, 0x30, 0x30, 0x30] = Province"
  using getAdminLevel_total [of "[0x61, 0x30]"] getAdminLevel_total [of "[0x78, 0x30, 0x30]"]
    getAdminLevel_total [of "[0x30, 0x30, 0x30, 0x30]"]
  by (simp add: endsWith_suffix [symmetric] endsWith_def s00_def s0000_def)

section \<open>Properties of the search\<close>

text \<open>
  Claim C3. For every query argument (absent, null, empty or any text) and every table,
  the sequence \<open>listCity\<close> returns has at most 100 entries.
\<close>

theorem listCity_length_le_100: "length (listCityOn T q) \<le> 100"
  by (simp add: listCityOn_def Let_def)

section \<open>The expansion loop\<close>

lemma includes_str_Nil: "includes_str s []"
  by (cases s) (simp_all add: startsWith_def)

lemma expandLoop_Cons:
  "expandLoop T (m # ms) acc =
     (if 10 \<le> length (acc @ expansion T m) then acc @ expansion T m
      else expandLoop T ms (acc @ expansion T m))"
  by (cases "getAdminLevel (adcode m)")
     (simp_all add: expansion_def findDistrictsInProvince_def findDistrictsInCity_def
        substring_from_0 startsWith_prefix Let_def)

lemma expandLoop_full:
  "length acc + length (concat (map (expansion T) ms)) < 10 \<Longrightarrow>
   expandLoop T ms acc = acc @ concat (map (expansion T) ms)"
proof (induction ms arbitrary: acc)
  case Nil
  then show ?case by simp
next
  case (Cons m ms)
  have "length (acc @ expansion T m) + length (concat (map (expansion T) ms)) < 10"
    using Cons.prems by simp
  then have "expandLoop T ms (acc @ expansion T m)
               = (acc @ expansion T m) @ concat (map (expansion T) ms)"
    by (rule Cons.IH)
  moreover have "\<not> 10 \<le> length (acc @ expansion T m)"
    using Cons.prems by simp
  ultimately show ?case
    by (simp only: expandLoop_Cons if_False list.map concat.simps append_assoc)
qed

lemma expandLoop_stop:
  "length acc + length (concat (map (expansion T) pre)) < 10 \<Longrightarrow>
   10 \<le> length acc + length (concat (map (expansion T) pre)) + length (expansion T m) \<Longrightarrow>
   expandLoop T (pre @ m # post) acc = acc @ concat (map (expansion T) pre) @ expansion T m"
proof (induction pre arbitrary: acc)
  case Nil
  then show ?case
    by (simp add: expandLoop_Cons del: expandLoop.simps)
next
  case (Cons p pre)
  have small: "\<not> 10 \<le> length (acc @ expansion T p)"
    using Cons.prems(1) by simp
  have "expandLoop T (pre @ m # post) (acc @ expansion T p)
          = (acc @ expansion T p) @ concat (map (expansion T) pre) @ expansion T m"
    using Cons.prems by (intro Cons.IH) simp_all
  then show ?case
    using small by (simp add: expandLoop_Cons del: expandLoop.simps)
qed

lemma expandLoop_take:
  "\<exists>k\<le>length ms. expandLoop T ms acc = acc @ concat (map (expansion T) (take k ms))"
proof (induction ms arbitrary: acc)
  case Nil
  then show ?case by simp
next
  case (Cons m ms)
  show ?case
  proof (cases "10 \<le> length (acc @ expansion T m)")
    case True
    then have "expandLoop T (m # ms) acc = acc @ concat (map (expansion T) (take 1 (m # ms)))"
      by (simp add: expandLoop_Cons del: expandLoop.simps)
    then show ?thesis
      by (intro exI [of _ 1]) simp
  next
    case False
    obtain k where k: "k \<le> length ms"
      "expandLoop T ms (acc @ expansion T m)
         = (acc @ expansion T m) @ concat (map (expansion T) (take k ms))"
      using Cons.IH [of "acc @ expansion T m"] by blast
    have "expandLoop T (m # ms) acc
            = acc @ concat (map (expansion T) (take (Suc k) (m # ms)))"
      using False k(2) by (simp add: expandLoop_Cons del: expandLoop.simps)
    then show ?thesis
      using k(1) by (intro exI [of _ "Suc k"]) simp
  qed
qed

lemma expandLoop_full_or_10:
  "10 \<le> length (expandLoop T ms acc) \<or>
   expandLoop T ms acc = acc @ concat (map (expansion T) ms)"
proof (induction ms arbitrary: acc)
  case Nil
  then show ?case by simp
next
  case (Cons m ms)
  show ?case
  proof (cases "10 \<le> length (acc @ expansion T m)")
    case True
    then show ?thesis
      by (simp add: expandLoop_Cons del: expandLoop.simps)
  next
    case False
    then show ?thesis
      using Cons.IH [of "acc @ expansion T m"]
      by (simp add: expandLoop_Cons del: expandLoop.simps)
  qed
qed

lemma expansion_not_province:
  "e \<in> set (expansion T m) \<Longrightarrow> getAdminLevel (adcode e) \<noteq> Province"
  by (cases "getAdminLevel (adcode m)")
     (auto simp add: expansion_def Let_def split: if_splits)

lemma expansion_subset: "m \<in> set T \<Longrightarrow> set (expansion T m) \<subseteq> set T"
  by (cases "getAdminLevel (adcode m)")
     (auto simp add: expansion_def Let_def split: if_splits)

lemma expansion_nonempty: "getAdminLevel (adcode m) \<noteq> Province \<Longrightarrow> expansion T m \<noteq> []"
  by (cases "getAdminLevel (adcode m)")
     (auto simp add: expansion_def Let_def split: if_splits)

lemma listCityOn_composed:
  "listCityOn T q =
     map (composed T)
       (take 100 (expandLoop T (filter (\<lambda>c. includes_str (name c) (orEmpty q)) T) []))"
  by (simp add: listCityOn_def Let_def composed_def [abs_def])

lemma adcode_composed: "adcode (composed T m) = adcode m"
  by (simp add: composed_def)

text \<open>
  Claim C9. For every table and every query, no entry of the sequence \<open>listCity\<close>
  returns is a province-tier record: the code of every returned entry fails the
  ends-in-\<open>"0000"\<close> test, since only district-tier records and a city-tier fallback
  record are ever pushed.
\<close>

theorem listCity_no_province_entry:
  "\<forall>e\<in>set (listCityOn T q).
     getAdminLevel (adcode e) \<noteq> Province \<and> \<not> endsWith (adcode e) s0000"
proof
  fix e
  assume "e \<in> set (listCityOn T q)"
  then obtain r where r: "e = composed T r"
    "r \<in> set (take 100 (expandLoop T (filter (\<lambda>c. includes_str (name c) (orEmpty q)) T) []))"
    unfolding listCityOn_composed by auto
  obtain k where
    "expandLoop T (filter (\<lambda>c. includes_str (name c) (orEmpty q)) T) []
       = [] @ concat (map (expansion T) (take k (filter (\<lambda>c. includes_str (name c) (orEmpty q)) T)))"
    using expandLoop_take by blast
  then have "r \<in> set (concat (map (expansion T)
                 (take k (filter (\<lambda>c. includes_str (name c) (orEmpty q)) T))))"
    using r(2) in_set_takeD by fastforce
  then obtain m where "r \<in> set (expansion T m)"
    by auto
  then have "getAdminLevel (adcode r) \<noteq> Province"
    by (rule expansion_not_province)
  then have "getAdminLevel (adcode e) \<noteq> Province"
    using r(1) by (simp add: adcode_composed)
  then show "getAdminLevel (adcode e) \<noteq> Province \<and> \<not> endsWith (adcode e) s0000"
    by (simp add: getAdminLevel_def split: if_splits)
qed

theorem listCity_no_province_entry_witness:
  "listCityOn zhejiangTable Undefined \<noteq> [] \<and>
   list_all (\<lambda>e. getAdminLevel (adcode e) \<noteq> Province \<and> \<not> endsWith (adcode e) s0000)
     (listCityOn zhejiangTable Undefined)"
proof -
  have "listCityOn zhejiangTable Undefined \<noteq> []"
    by code_simp
  moreover have "list_all (\<lambda>e. getAdminLevel (adcode e) \<noteq> Province \<and> \<not> endsWith (adcode e) s0000)
     (listCityOn zhejiangTable Undefined)"
    using listCity_no_province_entry [of zhejiangTable Undefined]
    by (simp add: list_all_iff)
  ultimately show ?thesis
    by simp
qed

lemma expandLoop_prefix_of_matches:
  "\<exists>k\<le>length ms.
     (k = length ms \<or> 10 \<le> length acc + length (concat (map (expansion T) (take k ms)))) \<and>
     expandLoop T ms acc = acc @ concat (map (expansion T) (take k ms))"
proof (induction ms arbitrary: acc)
  case Nil
  then show ?case by simp
next
  case (Cons m ms)
  show ?case
  proof (cases "10 \<le> length (acc @ expansion T m)")
    case True
    then have "expandLoop T (m # ms) acc = acc @ concat (map (expansion T) (take 1 (m # ms)))"
      by (simp add: expandLoop_Cons del: expandLoop.simps)
    moreover have "10 \<le> length acc + length (concat (map (expansion T) (take 1 (m # ms))))"
      using True by simp
    ultimately show ?thesis
      by (intro exI [of _ 1]) simp
  next
    case False
    obtain k where k: "k \<le> length ms"
      "k = length ms \<or>
       10 \<le> length (acc @ expansion T m) + length (concat (map (expansion T) (take k ms)))"
      "expandLoop T ms (acc @ expansion T m)
         = (acc @ expansion T m) @ concat (map (expansion T) (take k ms))"
      using Cons.IH [of "acc @ expansion T m"] by blast
    have "expandLoop T (m # ms) acc
            = acc @ concat (map (expansion T) (take (Suc k) (m # ms)))"
      using False k(3) by (simp add: expandLoop_Cons del: expandLoop.simps)
    moreover have "Suc k = length (m # ms) \<or>
       10 \<le> length acc + length (concat (map (expansion T) (take (Suc k) (m # ms))))"
      using k(2) by auto
    ultimately show ?thesis
      using k(1) by (intro exI [of _ "Suc k"]) simp
  qed
qed

lemma listCityOn_matching:
  "listCityOn T q = map (composed T) (take 100 (expandLoop T (matching T q) []))"
  by (simp add: listCityOn_composed matching_def)

text \<open>
  Claim C2. In \<open>listCity\<close> the records whose name contains the query are expanded by
  tier, in table order: a province-tier match contributes exactly the district-tier
  records whose codes start with its first two code units (nothing at all when there are
  none, not even the province record), a city-tier match the district-tier records whose
  codes start with its first four code units or, when there are none, the city record
  itself, and a district-tier match itself; this is \<open>expansion\<close>. The result is the
  composed, truncated concatenation of the expansions of the first \<open>k\<close> matches, where
  \<open>k\<close> is all of them unless the accumulated count reached 10.
\<close>

theorem listCity_expands_by_tier:
  "\<exists>k\<le>length (matching T q).
     (k = length (matching T q) \<or>
      10 \<le> length (concat (map (expansion T) (take k (matching T q))))) \<and>
     listCityOn T q =
       map (composed T) (take 100 (concat (map (expansion T) (take k (matching T q)))))"
proof -
  obtain k where k: "k \<le> length (matching T q)"
    "k = length (matching T q) \<or>
     10 \<le> length ([] :: CityInfo list)
            + length (concat (map (expansion T) (take k (matching T q))))"
    "expandLoop T (matching T q) [] = [] @ concat (map (expansion T) (take k (matching T q)))"
    using expandLoop_prefix_of_matches [of "matching T q" "[]" T] by blast
  have "listCityOn T q =
       map (composed T) (take 100 (concat (map (expansion T) (take k (matching T q)))))"
    using k(3) by (simp add: listCityOn_matching)
  then show ?thesis
    using k(1) k(2) by (intro exI [of _ k]) simp
qed

theorem listCity_expands_by_tier_witness:
  "matching zhejiangTable (Str [0x676D]) = [hangzhou] \<and>
   expansion zhejiangTable hangzhou = [xihu] \<and>
   listCityOn zhejiangTable (Str [0x676D]) = [composed zhejiangTable xihu]"
proof -
  have m: "matching zhejiangTable (Str [0x676D]) = [hangzhou]"
    by code_simp
  have e: "expansion zhejiangTable hangzhou = [xihu]"
    by code_simp
  obtain k where k: "k \<le> length (matching zhejiangTable (Str [0x676D]))"
    "k = length (matching zhejiangTable (Str [0x676D])) \<or>
     10 \<le> length (concat (map (expansion zhejiangTable)
                             (take k (matching zhejiangTable (Str [0x676D])))))"
    "listCityOn zhejiangTable (Str [0x676D]) =
       map (composed zhejiangTable)
         (take 100 (concat (map (expansion zhejiangTable)
                              (take k (matching zhejiangTable (Str [0x676D]))))))"
    using listCity_expands_by_tier [of zhejiangTable "Str [0x676D]"] by blast
  have "k = 1"
    using k(1) k(2) by (cases k) (simp_all add: m e)
  then have "listCityOn zhejiangTable (Str [0x676D]) = [composed zhejiangTable xihu]"
    using k(3) by (simp add: m e)
  then show ?thesis
    using m e by simp
qed

text \<open>
  Claim C4. \<open>listCity\<close> stops expanding further matches once the accumulated count
  reaches 10, and checks this only after a match has been expanded in full: when all
  expansions together stay below 10 every match is expanded; when the expansions of the
  matches before \<open>m\<close> stay below 10 and that of \<open>m\<close> reaches 10, the whole expansion of
  \<open>m\<close> is kept and the matches after \<open>m\<close> contribute nothing; and a single match can
  push the count past 10 (the municipality of the sample table gives 11).
\<close>

theorem listCity_stops_at_10:
  "(length (concat (map (expansion T) (matching T q))) < 10 \<longrightarrow>
      listCityOn T q = map (composed T) (concat (map (expansion T) (matching T q)))) \<and>
   (matching T q = pre @ m # post \<and>
    length (concat (map (expansion T) pre)) < 10 \<and>
    10 \<le> length (concat (map (expansion T) (pre @ [m]))) \<longrightarrow>
      listCityOn T q =
        map (composed T) (take 100 (concat (map (expansion T) (pre @ [m]))))) \<and>
   length (expandLoop beijingTable [beijing] []) = 11"
proof (intro conjI impI)
  assume "length (concat (map (expansion T) (matching T q))) < 10"
  then show "listCityOn T q = map (composed T) (concat (map (expansion T) (matching T q)))"
    by (simp add: listCityOn_matching expandLoop_full)
next
  assume a: "matching T q = pre @ m # post \<and>
    length (concat (map (expansion T) pre)) < 10 \<and>
    10 \<le> length (concat (map (expansion T) (pre @ [m])))"
  then have "expandLoop T (pre @ m # post) [] = [] @ concat (map (expansion T) pre) @ expansion T m"
    by (intro expandLoop_stop) simp_all
  then show "listCityOn T q =
        map (composed T) (take 100 (concat (map (expansion T) (pre @ [m]))))"
    using a by (simp add: listCityOn_matching)
next
  show "length (expandLoop beijingTable [beijing] []) = 11"
    by code_simp
qed

theorem listCity_stops_at_10_witness:
  "matching beijingTable Undefined = [] @ beijing # beijingDistricts \<and>
   length (expansion beijingTable beijing) = 11 \<and>
   listCityOn beijingTable Undefined = map (composed beijingTable) beijingDistricts \<and>
   length (concat (map (expansion zhejiangTable) (matching zhejiangTable (Str [0x676D])))) = 1 \<and>
   listCityOn zhejiangTable (Str [0x676D]) = map (composed zhejiangTable) [xihu]"
proof -
  have m: "matching beijingTable Undefined = [] @ beijing # beijingDistricts"
    by code_simp
  have e: "expansion beijingTable beijing = beijingDistricts"
    by code_simp
  have l: "length beijingDistricts = 11"
    by (simp add: beijingDistricts_def)
  have "listCityOn beijingTable Undefined =
          map (composed beijingTable)
            (take 100 (concat (map (expansion beijingTable) ([] @ [beijing]))))"
    using listCity_stops_at_10 [of beijingTable Undefined "[]" beijing beijingDistricts] m e l
    by simp
  then have b: "listCityOn beijingTable Undefined = map (composed beijingTable) beijingDistricts"
    by (simp add: e l)
  have z: "concat (map (expansion zhejiangTable) (matching zhejiangTable (Str [0x676D]))) = [xihu]"
    by code_simp
  have "listCityOn zhejiangTable (Str [0x676D]) = map (composed zhejiangTable) [xihu]"
    using listCity_stops_at_10 [of zhejiangTable "Str [0x676D]" "[]" hangzhou "[]"] z
    by simp
  then show ?thesis
    using m e l b z by simp
qed

lemma orEmpty_falsy: "orEmpty Undefined = []" "orEmpty Null = []" "orEmpty (Str []) = []"
  by (simp_all add: orEmpty_def)

lemma matching_empty_query: "matching T (Str []) = T"
  by (simp add: matching_def orEmpty_def includes_str_Nil)

lemma expandLoop_nonempty_iff:
  "(expandLoop T T [] \<noteq> []) = (\<exists>r\<in>set T. getAdminLevel (adcode r) \<noteq> Province)"
proof
  assume ne: "expandLoop T T [] \<noteq> []"
  obtain k where "expandLoop T T [] = [] @ concat (map (expansion T) (take k T))"
    using expandLoop_take by blast
  then obtain e where "e \<in> set (concat (map (expansion T) (take k T)))"
    using ne by (cases "concat (map (expansion T) (take k T))") auto
  then obtain m where m: "m \<in> set (take k T)" "e \<in> set (expansion T m)"
    by auto
  have "m \<in> set T"
    using m(1) by (rule in_set_takeD)
  then have "e \<in> set T"
    using m(2) expansion_subset by blast
  moreover have "getAdminLevel (adcode e) \<noteq> Province"
    using m(2) by (rule expansion_not_province)
  ultimately show "\<exists>r\<in>set T. getAdminLevel (adcode r) \<noteq> Province"
    by blast
next
  assume "\<exists>r\<in>set T. getAdminLevel (adcode r) \<noteq> Province"
  then obtain r where r: "r \<in> set T" "getAdminLevel (adcode r) \<noteq> Province"
    by blast
  have "expansion T r \<noteq> []"
    using r(2) by (rule expansion_nonempty)
  then have full: "concat (map (expansion T) T) \<noteq> []"
    using r(1) by auto
  from expandLoop_full_or_10 [of T T "[]"] show "expandLoop T T [] \<noteq> []"
  proof
    assume "10 \<le> length (expandLoop T T [])"
    then show ?thesis by auto
  next
    assume "expandLoop T T [] = [] @ concat (map (expansion T) T)"
    then show ?thesis using full by simp
  qed
qed

lemma prefix_concat_take: "prefix (concat (map f (take k xs))) (concat (map f xs))"
proof -
  have "concat (map f xs) = concat (map f (take k xs)) @ concat (map f (drop k xs))"
    by (metis append_take_drop_id concat_append map_append)
  then show ?thesis
    unfolding prefix_def by blast
qed

text \<open>
  Claim C5, as amended. \<open>listCity\<close> called with the empty string, with no argument
  and with \<open>null\<close> behaves identically (such a query matches every record), and each
  call returns a prefix of the full expanded, composed table, capped at 100 entries. The
  prefix is non-empty exactly when the table holds a record that is not province-tier; on
  a table of province-tier records only, or on an empty table, it is empty.
\<close>

theorem listCity_empty_query:
  "listCityOn T Undefined = listCityOn T (Str []) \<and>
   listCityOn T Null = listCityOn T (Str []) \<and>
   matching T (Str []) = T \<and>
   prefix (listCityOn T (Str [])) (map (composed T) (concat (map (expansion T) T))) \<and>
   length (listCityOn T (Str [])) \<le> 100 \<and>
   ((listCityOn T (Str []) \<noteq> []) = (\<exists>r\<in>set T. getAdminLevel (adcode r) \<noteq> Province))"
proof -
  have same: "listCityOn T Undefined = listCityOn T (Str [])"
    "listCityOn T Null = listCityOn T (Str [])"
    by (simp_all add: listCityOn_def orEmpty_falsy)
  have res: "listCityOn T (Str []) = map (composed T) (take 100 (expandLoop T T []))"
    by (simp add: listCityOn_matching matching_empty_query)
  obtain k where k: "expandLoop T T [] = [] @ concat (map (expansion T) (take k T))"
    using expandLoop_take by blast
  have "prefix (take 100 (expandLoop T T [])) (expandLoop T T [])"
    by (rule take_is_prefix)
  also have "prefix (expandLoop T T []) (concat (map (expansion T) T))"
    using k by (simp add: prefix_concat_take)
  finally have "prefix (listCityOn T (Str [])) (map (composed T) (concat (map (expansion T) T)))"
    unfolding res by (rule map_mono_prefix)
  moreover have "length (listCityOn T (Str [])) \<le> 100"
    by (simp add: res)
  moreover have "(listCityOn T (Str []) \<noteq> []) = (\<exists>r\<in>set T. getAdminLevel (adcode r) \<noteq> Province)"
    using expandLoop_nonempty_iff [of T] by (simp add: res)
  ultimately show ?thesis
    using same matching_empty_query [of T] by simp
qed

theorem listCity_empty_query_witness:
  "list_ex (\<lambda>r. getAdminLevel (adcode r) \<noteq> Province) zhejiangTable \<and>
   listCityOn zhejiangTable Undefined \<noteq> [] \<and>
   listCityOn zhejiangTable Undefined = listCityOn zhejiangTable (Str []) \<and>
   prefix (listCityOn zhejiangTable Undefined)
     (map (composed zhejiangTable) (concat (map (expansion zhejiangTable) zhejiangTable)))"
proof -
  have "list_ex (\<lambda>r. getAdminLevel (adcode r) \<noteq> Province) zhejiangTable"
    by code_simp
  then show ?thesis
    using listCity_empty_query [of zhejiangTable]
    by (simp add: list_ex_iff)
qed

text \<open>On the table that holds the country row alone, both calls return the empty
  sequence, so the returned prefix is not always non-empty.\<close>

theorem listCity_empty_query_counterexample:
  "countryOnlyTable \<noteq> [] \<and>
   listCityOn countryOnlyTable Undefined = [] \<and> listCityOn countryOnlyTable (Str []) = []"
  by code_simp

section \<open>The name composer's rule table\<close>

lemma findProvince_find:
  "findProvince code T = find (\<lambda>c. adcode c = take 2 code @ s0000) T"
  by (simp add: findProvince_def substring_from_0)

lemma findCity_find:
  "findCity code T = find (\<lambda>c. adcode c = take 4 code @ s00) T"
  by (simp add: findCity_def substring_from_0)

lemma isCountyLevelCity_District:
  "getAdminLevel (adcode r) = District \<Longrightarrow> isCountyLevelCity r = suffix sShi (name r)"
  by (simp add: isCountyLevelCity_def endsWith_suffix)

text \<open>
  Claim C1. For every record \<open>r\<close> of the table \<open>T\<close>, \<open>buildFullName r T\<close> follows
  the rule table, where the parent province is the first record whose code is the first
  two code units of \<open>r\<close>'s code followed by \<open>"0000"\<close> and the parent city the first
  record whose code is the first four code units followed by \<open>"00"\<close>. A province-tier
  record gives its name unchanged. A city-tier record gives province name + name when
  the parent province exists and is not a municipality, and its name alone otherwise. A
  district-tier record whose name ends with the "city" glyph gives province name + name
  when the parent province exists (the city name is left out even when the parent city
  exists), else its name. An ordinary district gives province name + name when the parent
  province is a municipality, province name + city name + name when province and city
  both resolve, province name + name when only the province resolves, and its name alone
  when the province does not resolve.
\<close>

theorem buildFullName_rule_table:
  assumes "r \<in> set T"
  shows
    "findProvince (adcode r) T = find (\<lambda>c. adcode c = take 2 (adcode r) @ s0000) T \<and>
     findCity (adcode r) T = find (\<lambda>c. adcode c = take 4 (adcode r) @ s00) T \<and>
     (getAdminLevel (adcode r) = Province \<longrightarrow> buildFullName r T = name r) \<and>
     (getAdminLevel (adcode r) = City \<longrightarrow>
        (\<forall>p. findProvince (adcode r) T = Some p \<and> \<not> isMunicipality p \<longrightarrow>
              buildFullName r T = name p @ name r) \<and>
        (\<forall>p. findProvince (adcode r) T = Some p \<and> isMunicipality p \<longrightarrow>
              buildFullName r T = name r) \<and>
        (findProvince (adcode r) T = None \<longrightarrow> buildFullName r T = name r)) \<and>
     (getAdminLevel (adcode r) = District \<and> suffix sShi (name r) \<longrightarrow>
        (\<forall>p. findProvince (adcode r) T = Some p \<longrightarrow> buildFullName r T = name p @ name r) \<and>
        (findProvince (adcode r) T = None \<longrightarrow> buildFullName r T = name r)) \<and>
     (getAdminLevel (adcode r) = District \<and> \<not> suffix sShi (name r) \<longrightarrow>
        (\<forall>p. findProvince (adcode r) T = Some p \<and> isMunicipality p \<longrightarrow>
              buildFullName r T = name p @ name r) \<and>
        (\<forall>p c. findProvince (adcode r) T = Some p \<and> \<not> isMunicipality p \<and>
                findCity (adcode r) T = Some c \<longrightarrow>
              buildFullName r T = name p @ name c @ name r) \<and>
        (\<forall>p. findProvince (adcode r) T = Some p \<and> \<not> isMunicipality p \<and>
              findCity (adcode r) T = None \<longrightarrow>
              buildFullName r T = name p @ name r) \<and>
        (findProvince (adcode r) T = None \<longrightarrow> buildFullName r T = name r))"
proof (cases "getAdminLevel (adcode r)")
  case Province
  then show ?thesis
    by (simp add: findProvince_find findCity_find buildFullName_def)
next
  case City
  then show ?thesis
    by (simp add: findProvince_find findCity_find buildFullName_def Let_def)
next
  case District
  show ?thesis
  proof (cases "suffix sShi (name r)")
    case True
    then have "isCountyLevelCity r"
      using District by (simp add: isCountyLevelCity_District)
    then show ?thesis
      using District True
      by (simp add: findProvince_find findCity_find buildFullName_def Let_def)
  next
    case False
    then have "\<not> isCountyLevelCity r"
      using District by (simp add: isCountyLevelCity_District)
    then show ?thesis
      using District False
      by (simp add: findProvince_find findCity_find buildFullName_def Let_def)
  qed
qed

theorem buildFullName_rule_table_witness:
  "xihu \<in> set zhejiangTable \<and> getAdminLevel (adcode xihu) = District \<and>
   \<not> suffix sShi (name xihu) \<and>
   findProvince (adcode xihu) zhejiangTable = Some zhejiang \<and> \<not> isMunicipality zhejiang \<and>
   findCity (adcode xihu) zhejiangTable = Some hangzhou \<and>
   buildFullName xihu zhejiangTable = name zhejiang @ name hangzhou @ name xihu \<and>
   yiwu \<in> set zhejiangTable \<and> getAdminLevel (adcode yiwu) = District \<and>
   suffix sShi (name yiwu) \<and>
   findProvince (adcode yiwu) zhejiangTable = Some zhejiang \<and>
   findCity (adcode yiwu) zhejiangTable = Some jinhua \<and>
   buildFullName yiwu zhejiangTable = name zhejiang @ name yiwu \<and>
   hangzhou \<in> set zhejiangTable \<and> getAdminLevel (adcode hangzhou) = City \<and>
   findProvince (adcode hangzhou) zhejiangTable = Some zhejiang \<and>
   buildFullName hangzhou zhejiangTable = name zhejiang @ name hangzhou \<and>
   zhejiang \<in> set zhejiangTable \<and> getAdminLevel (adcode zhejiang) = Province \<and>
   buildFullName zhejiang zhejiangTable = name zhejiang \<and>
   beijingDistrict 0x30 0x31 \<in> set beijingTable \<and>
   getAdminLevel (adcode (beijingDistrict 0x30 0x31)) = District \<and>
   \<not> suffix sShi (name (beijingDistrict 0x30 0x31)) \<and>
   findProvince (adcode (beijingDistrict 0x30 0x31)) beijingTable = Some beijing \<and>
   isMunicipality beijing \<and>
   buildFullName (beijingDistrict 0x30 0x31) beijingTable
     = name beijing @ name (beijingDistrict 0x30 0x31)"
proof -
  have mem: "xihu \<in> set zhejiangTable" "yiwu \<in> set zhejiangTable"
    "hangzhou \<in> set zhejiangTable" "zhejiang \<in> set zhejiangTable"
    "beijingDistrict 0x30 0x31 \<in> set beijingTable"
    by (simp_all add: zhejiangTable_def beijingTable_def beijingDistricts_def)
  have lev: "getAdminLevel (adcode xihu) = District" "getAdminLevel (adcode yiwu) = District"
    "getAdminLevel (adcode hangzhou) = City" "getAdminLevel (adcode zhejiang) = Province"
    "getAdminLevel (adcode (beijingDistrict 0x30 0x31)) = District"
    by code_simp+
  have "\<not> endsWith (name xihu) sShi" "endsWith (name yiwu) sShi"
    "\<not> endsWith (name (beijingDistrict 0x30 0x31)) sShi"
    by code_simp+
  then have suf: "\<not> suffix sShi (name xihu)" "suffix sShi (name yiwu)"
    "\<not> suffix sShi (name (beijingDistrict 0x30 0x31))"
    by (simp_all add: endsWith_suffix)
  have par: "findProvince (adcode xihu) zhejiangTable = Some zhejiang"
    "findCity (adcode xihu) zhejiangTable = Some hangzhou"
    "findProvince (adcode yiwu) zhejiangTable = Some zhejiang"
    "findCity (adcode yiwu) zhejiangTable = Some jinhua"
    "findProvince (adcode hangzhou) zhejiangTable = Some zhejiang"
    "findProvince (adcode (beijingDistrict 0x30 0x31)) beijingTable = Some beijing"
    by code_simp+
  have mun: "\<not> isMunicipality zhejiang" "isMunicipality beijing"
    by code_simp+
  have "buildFullName xihu zhejiangTable = name zhejiang @ name hangzhou @ name xihu"
    using buildFullName_rule_table [OF mem(1)] lev(1) suf(1) par(1,2) mun(1) by simp
  moreover have "buildFullName yiwu zhejiangTable = name zhejiang @ name yiwu"
    using buildFullName_rule_table [OF mem(2)] lev(2) suf(2) par(3) by simp
  moreover have "buildFullName hangzhou zhejiangTable = name zhejiang @ name hangzhou"
    using buildFullName_rule_table [OF mem(3)] lev(3) par(5) mun(1) by simp
  moreover have "buildFullName zhejiang zhejiangTable = name zhejiang"
    using buildFullName_rule_table [OF mem(4)] lev(4) by simp
  moreover have "buildFullName (beijingDistrict 0x30 0x31) beijingTable
     = name beijing @ name (beijingDistrict 0x30 0x31)"
    using buildFullName_rule_table [OF mem(5)] lev(5) suf(3) par(6) mun(2) by simp
  ultimately show ?thesis
    using mem lev suf par mun by simp
qed

section \<open>The loader and the lookup by code\<close>

lemma mapE_all_Inr:
  "\<forall>x\<in>set xs. \<exists>y. f x = Inr y \<Longrightarrow> mapE f xs = Inr (map (\<lambda>x. projr (f x)) xs)"
  by (induction xs) auto

lemma parseLine_three:
  "3 \<le> length (split_str comma l) \<Longrightarrow>
   parseLine l = Inr \<lparr>name = trim (split_str comma l ! 0),
                       adcode = trim (split_str comma l ! 1),
                       citycode = trim (split_str comma l ! 2)\<rparr>"
  by (cases "split_str comma l" rule: list.exhaust [case_names Nil Cons])
     (auto simp add: parseLine_def split: list.splits)

lemma parseLine_short: "length (split_str comma l) < 3 \<Longrightarrow> parseLine l = Inl TypeError"
  by (auto simp add: parseLine_def split: list.splits)

lemma listCity_loaded: "loadCityData file = Inr T \<Longrightarrow> listCity file q = Inr (listCityOn T q)"
  by (simp add: listCity_def)

lemma listCity_load_failed: "loadCityData file = Inl e \<Longrightarrow> listCity file q = Inl e"
  by (simp add: listCity_def)

lemma loadCityData_Some:
  "loadCityData (Some content) = mapE parseLine (dataLines content)"
  by (simp add: loadCityData_def dataLines_def)

text \<open>
  Claim C6, as amended. A data line with at least three comma-separated fields, malformed
  or not (extra columns, a non-numeric code), is propagated as a record made of its first
  three fields, trimmed and not validated. When every non-blank data line has at least
  three fields the load succeeds with exactly these records, in order; so loading fails
  only when the source cannot be read or some non-blank data line has fewer than three
  fields.
\<close>

theorem loadCityData_three_fields:
  "loadCityData None = Inl ReadError \<and>
   ((\<forall>l\<in>set (dataLines content). 3 \<le> length (split_str comma l)) \<longrightarrow>
      loadCityData (Some content) =
        Inr (map (\<lambda>l. \<lparr>name = trim (split_str comma l ! 0),
                         adcode = trim (split_str comma l ! 1),
                         citycode = trim (split_str comma l ! 2)\<rparr>) (dataLines content)))"
proof (intro conjI impI)
  show "loadCityData None = Inl ReadError"
    by (simp add: loadCityData_def)
next
  assume three: "\<forall>l\<in>set (dataLines content). 3 \<le> length (split_str comma l)"
  then have "\<forall>l\<in>set (dataLines content). \<exists>y. parseLine l = Inr y"
    by (simp add: parseLine_three)
  then have "mapE parseLine (dataLines content)
               = Inr (map (\<lambda>l. projr (parseLine l)) (dataLines content))"
    by (rule mapE_all_Inr)
  also have "map (\<lambda>l. projr (parseLine l)) (dataLines content)
               = map (\<lambda>l. \<lparr>name = trim (split_str comma l ! 0),
                         adcode = trim (split_str comma l ! 1),
                         citycode = trim (split_str comma l ! 2)\<rparr>) (dataLines content)"
    using three by (intro map_cong refl) (simp add: parseLine_three)
  finally show "loadCityData (Some content) =
        Inr (map (\<lambda>l. \<lparr>name = trim (split_str comma l ! 0),
                         adcode = trim (split_str comma l ! 1),
                         citycode = trim (split_str comma l ! 2)\<rparr>) (dataLines content))"
    by (simp add: loadCityData_Some)
qed

theorem loadCityData_three_fields_witness:
  "list_all (\<lambda>l. 3 \<le> length (split_str comma l)) (dataLines garbageFile) \<and>
   length (dataLines garbageFile) = 2 \<and>
   loadCityData (Some garbageFile) =
     Inr [\<lparr>name = [0x41], adcode = [0x78, 0x31], citycode = [0x30, 0x31, 0x30]\<rparr>,
          \<lparr>name = [0x42], adcode = [0x31, 0x31, 0x30, 0x31, 0x30, 0x31],
            citycode = [0x30, 0x31, 0x30]\<rparr>]"
proof -
  have three: "list_all (\<lambda>l. 3 \<le> length (split_str comma l)) (dataLines garbageFile)"
    by code_simp
  have two: "length (dataLines garbageFile) = 2"
    by code_simp
  have "loadCityData (Some garbageFile) =
        Inr (map (\<lambda>l. \<lparr>name = trim (split_str comma l ! 0),
                         adcode = trim (split_str comma l ! 1),
                         citycode = trim (split_str comma l ! 2)\<rparr>) (dataLines garbageFile))"
    using loadCityData_three_fields [of garbageFile] three
    by (simp add: list_all_iff)
  also have "map (\<lambda>l. \<lparr>name = trim (split_str comma l ! 0),
                         adcode = trim (split_str comma l ! 1),
                         citycode = trim (split_str comma l ! 2)\<rparr>) (dataLines garbageFile)
      = [\<lparr>name = [0x41], adcode = [0x78, 0x31], citycode = [0x30, 0x31, 0x30]\<rparr>,
          \<lparr>name = [0x42], adcode = [0x31, 0x31, 0x30, 0x31, 0x30, 0x31],
            citycode = [0x30, 0x31, 0x30]\<rparr>]"
    by code_simp
  finally show ?thesis
    using three two by simp
qed

text \<open>A non-blank data line with two fields only: the load raises a TypeError instead
  of returning a record for it.\<close>

theorem loadCityData_short_row_counterexample:
  "dataLines shortRowFile = [[0x41, 0x2C, 0x31, 0x31, 0x30, 0x30, 0x30, 0x30]] \<and>
   loadCityData (Some shortRowFile) = Inl TypeError"
  by code_simp

text \<open>
  Claim C8. For every code that is the code of no record of the loaded table (such as
  \<open>"999999"\<close>), \<open>getCity\<close> returns absent and raises no error.
\<close>

theorem getCity_not_found:
  assumes "loadCityData file = Inr T" and "\<forall>c\<in>set T. adcode c \<noteq> code"
  shows "getCity file code = Inr None"
proof -
  have "find (\<lambda>c. adcode c = code) T = None"
    using assms(2) by (simp add: find_None_iff)
  then show ?thesis
    using assms(1) by (simp add: getCity_def)
qed

theorem getCity_not_found_witness:
  "loadCityData (Some goodFile)
     = Inr [\<lparr>name = [0x41], adcode = [0x31, 0x31, 0x30, 0x30, 0x30, 0x30],
             citycode = [0x30, 0x31, 0x30]\<rparr>] \<and>
   getCity (Some goodFile) [0x39, 0x39, 0x39, 0x39, 0x39, 0x39] = Inr None"
proof -
  have load: "loadCityData (Some goodFile)
     = Inr [\<lparr>name = [0x41], adcode = [0x31, 0x31, 0x30, 0x30, 0x30, 0x30],
             citycode = [0x30, 0x31, 0x30]\<rparr>]"
    by code_simp
  have "getCity (Some goodFile) [0x39, 0x39, 0x39, 0x39, 0x39, 0x39] = Inr None"
    by (rule getCity_not_found [OF load]) simp
  then show ?thesis
    using load by simp
qed

end
